theory Spec2Isabelle
  imports Complex_Main
begin

section \<open>Values, frames and the outside world\<close>

text \<open>
  The dashboard (\<^verbatim>\<open>src/app.py\<close>) is a Python script. Floats are modelled as reals,
  a \<^verbatim>\<open>datetime\<close> as a number of microseconds, a \<^verbatim>\<open>timedelta(n)\<close> as \<open>n\<close> days.
\<close>

type_synonym datetime = int

definition timedelta :: "int \<Rightarrow> int" where
  "timedelta days = days * 86400000000"

text \<open>The exceptions that the modelled code can meet; each \<^verbatim>\<open>try\<close> block catches all of them.\<close>

datatype error =
    ConnectionError | Timeout | HTTPError | JSONDecodeError
  | TypeError | ValueError | OverflowError | KeyError | IndexError | ZeroDivisionError
  | LibraryError

text \<open>A decoded JSON document, as Python objects.\<close>

datatype pyval =
    PNone | PBool bool | PNum real | PStr string
  | PList "pyval list" | PDict "(string \<times> pyval) list"

text \<open>
  A \<^verbatim>\<open>DataFrame\<close>, restricted to what the program reads: the names of its columns and, per
  row, the index entry and the five columns the program touches. A cell of a column that
  is not among \<open>columns\<close> carries no meaning.
\<close>

record 'c row =
  Date :: datetime
  Open :: 'c
  High :: 'c
  Low :: 'c
  Close :: 'c
  Volume :: 'c

record 'c dataframe =
  columns :: "string list"
  rows :: "'c row list"

definition df_len :: "'c dataframe \<Rightarrow> nat" where
  "df_len df = length (rows df)"

definition df_empty :: "'c dataframe \<Rightarrow> bool" where
  \<comment> \<open>\<^verbatim>\<open>DataFrame.empty\<close>: some axis has length 0.\<close>
  "df_empty df = (rows df = [] \<or> columns df = [])"

record response =
  status_code :: nat
  json_body :: "error + pyval"

text \<open>
  Everything the program obtains from outside itself: the HTTP client, the second data
  source, the clock, the platform's timestamp conversion, the random generators and the
  polarity lexicon. \<open>standard_normal w i\<close> and \<open>random_sample w n\<close> are the raw draws
  (a standard normal variate, a uniform variate of \<open>[0, 1)\<close>) from which
  \<^verbatim>\<open>np.random.normal\<close> and \<^verbatim>\<open>np.random.uniform\<close> compute their results; \<open>datetime_now w k\<close>
  is what the \<open>k\<close>-th call of \<^verbatim>\<open>datetime.now()\<close> returns. The normal variate of
  \<^verbatim>\<open>np.random\<close> comes from the polar method on 53-bit uniforms, so its magnitude is bounded
  (by about 12); statements that need it assume the bound 13.
\<close>

record world =
  requests_get :: "string \<Rightarrow> error + response"
  datetime_fromtimestamp :: "real \<Rightarrow> error + datetime"
  yf_history :: "string \<Rightarrow> string \<Rightarrow> string \<Rightarrow> error + pyval dataframe"
  datetime_now :: "nat \<Rightarrow> datetime"
  standard_normal :: "nat \<Rightarrow> real"
  random_sample :: "nat \<Rightarrow> real"
  random_randint :: "int \<Rightarrow> int \<Rightarrow> int"
  random_sample_of :: "string list \<Rightarrow> int \<Rightarrow> string list"
  textblob_polarity :: "string \<Rightarrow> error + real"

definition np_random_normal :: "real \<Rightarrow> real \<Rightarrow> real \<Rightarrow> real" where
  "np_random_normal loc scale z = loc + scale * z"

definition np_random_uniform :: "real \<Rightarrow> real \<Rightarrow> real \<Rightarrow> real" where
  "np_random_uniform low high u = low + (high - low) * u"

definition dict_get :: "('k \<times> 'v) list \<Rightarrow> 'k \<Rightarrow> 'v \<Rightarrow> 'v" where
  "dict_get d k dflt = (case map_of d k of Some v \<Rightarrow> v | None \<Rightarrow> dflt)"

section \<open>The mock data generator\<close>

definition base_prices :: "(string \<times> real) list" where
  "base_prices = [(''BTC-USD'', 42500), (''ETH-USD'', 2300), (''SOL-USD'', 105)]"

definition num_periods :: "string \<Rightarrow> nat" where
  "num_periods interval =
     (if interval = ''1d'' then 365
      else if interval = ''1h'' then 24 * 60
      else if interval = ''5m'' then 24 * 12 * 7
      else 24 * 60 * 7)"

definition range_down :: "nat \<Rightarrow> nat list" where
  \<comment> \<open>\<^verbatim>\<open>range(n, 0, -1)\<close>\<close>
  "range_down n = rev [1..<Suc n]"

definition mock_dates :: "world \<Rightarrow> nat \<Rightarrow> datetime list" where
  \<comment> \<open>\<^verbatim>\<open>[datetime.now() - timedelta(periods) for periods in range(num_periods, 0, -1)]\<close>:
      the clock is read once per element.\<close>
  "mock_dates w n =
     map (\<lambda>(k, periods). datetime_now w k - timedelta (int periods))
       (enumerate 0 (range_down n))"

definition mock_row :: "world \<Rightarrow> nat \<Rightarrow> real \<Rightarrow> datetime \<Rightarrow> real \<times> real row" where
  \<comment> \<open>One pass of the loop body, the \<open>i\<close>-th: the new running price and the row appended.\<close>
  "mock_row w i price date =
     (let daily_return = np_random_normal 0.002 0.03 (standard_normal w i);
          price = price * (1 + daily_return);
          open_price = price * np_random_uniform 0.98 1.02 (random_sample w (5 * i));
          close_price = price * np_random_uniform 0.98 1.02 (random_sample w (5 * i + 1));
          high_price = max open_price close_price
                       * np_random_uniform 1.0 1.02 (random_sample w (5 * i + 2));
          low_price = min open_price close_price
                      * np_random_uniform 0.98 1.0 (random_sample w (5 * i + 3));
          volume = np_random_uniform 1000000000 5000000000 (random_sample w (5 * i + 4))
      in (price, \<lparr>Date = date, Open = open_price, High = high_price, Low = low_price,
                  Close = close_price, Volume = volume\<rparr>))"

fun mock_loop :: "world \<Rightarrow> nat \<Rightarrow> real \<Rightarrow> datetime list \<Rightarrow> (real \<times> real row) list" where
  \<comment> \<open>\<^verbatim>\<open>for date in dates\<close>: every appended row, beside the running price it was made from.\<close>
  "mock_loop w i price [] = []"
| "mock_loop w i price (date # dates) =
     (case mock_row w i price date of
        (price', r) \<Rightarrow> (price', r) # mock_loop w (Suc i) price' dates)"

definition mock_trace :: "world \<Rightarrow> string \<Rightarrow> string \<Rightarrow> (real \<times> real row) list" where
  "mock_trace w ticker interval =
     mock_loop w 0 (dict_get base_prices ticker 1000) (mock_dates w (num_periods interval))"

definition ohlcv_columns :: "string list" where
  "ohlcv_columns = [''Open'', ''High'', ''Low'', ''Close'', ''Volume'']"

definition generate_mock_data :: "world \<Rightarrow> string \<Rightarrow> string \<Rightarrow> string \<Rightarrow> real dataframe" where
  "generate_mock_data w ticker period interval =
     \<lparr>columns = ohlcv_columns, rows = map snd (mock_trace w ticker interval)\<rparr>"

section \<open>The primary provider: \<^verbatim>\<open>get_coingecko_data\<close>\<close>

fun str_nat :: "nat \<Rightarrow> string" where
  "str_nat n = (if n < 10 then [char_of (48 + n)] else str_nat (n div 10) @ [char_of (48 + n mod 10)])"

definition py_str :: "int \<Rightarrow> string" where
  "py_str i = (if i < 0 then CHR ''-'' # str_nat (nat (- i)) else str_nat (nat i))"

definition ohlc_url :: "string \<Rightarrow> int \<Rightarrow> string" where
  "ohlc_url coin_id days =
     ''https://api.coingecko.com/api/v3/coins/'' @ coin_id
       @ ''/ohlc?vs_currency=usd&days='' @ py_str days"

definition raise_for_status :: "response \<Rightarrow> error + unit" where
  "raise_for_status r = (if 400 \<le> status_code r \<and> status_code r < 600 then Inl HTTPError else Inr ())"

fun truthy :: "pyval \<Rightarrow> bool" where
  "truthy PNone = False"
| "truthy (PBool b) = b"
| "truthy (PNum x) = (x \<noteq> 0)"
| "truthy (PStr s) = (s \<noteq> [])"
| "truthy (PList xs) = (xs \<noteq> [])"
| "truthy (PDict kvs) = (kvs \<noteq> [])"

fun py_len :: "pyval \<Rightarrow> error + nat" where
  "py_len (PStr s) = Inr (length s)"
| "py_len (PList xs) = Inr (length xs)"
| "py_len (PDict kvs) = Inr (length kvs)"
| "py_len v = Inl TypeError"

fun py_iter :: "pyval \<Rightarrow> error + pyval list" where
  \<comment> \<open>What a \<^verbatim>\<open>for\<close> loop or an unpacking assignment walks through.\<close>
  "py_iter (PStr s) = Inr (map (\<lambda>c. PStr [c]) s)"
| "py_iter (PList xs) = Inr xs"
| "py_iter (PDict kvs) = Inr (map (\<lambda>kv. PStr (fst kv)) kvs)"
| "py_iter v = Inl TypeError"

definition unpack5 :: "pyval \<Rightarrow> error + pyval \<times> pyval \<times> pyval \<times> pyval \<times> pyval" where
  \<comment> \<open>\<^verbatim>\<open>timestamp_ms, open_val, high_val, low_val, close_val = candle\<close>\<close>
  "unpack5 candle =
     (case py_iter candle of
        Inl e \<Rightarrow> Inl e
      | Inr xs \<Rightarrow>
          if length xs = 5 then Inr (xs ! 0, xs ! 1, xs ! 2, xs ! 3, xs ! 4)
          else Inl ValueError)"

fun py_truediv :: "pyval \<Rightarrow> real \<Rightarrow> error + real" where
  \<comment> \<open>\<^verbatim>\<open>x / d\<close> for a non-zero float \<open>d\<close>; a \<^verbatim>\<open>bool\<close> is an \<^verbatim>\<open>int\<close>.\<close>
  "py_truediv (PNum x) d = Inr (x / d)"
| "py_truediv (PBool b) d = Inr ((if b then 1 else 0) / d)"
| "py_truediv v d = Inl TypeError"

definition parse_candle ::
  "world \<Rightarrow> pyval \<Rightarrow> error + datetime \<times> pyval \<times> pyval \<times> pyval \<times> pyval" where
  "parse_candle w candle =
     (case unpack5 candle of
        Inl e \<Rightarrow> Inl e
      | Inr (timestamp_ms, open_val, high_val, low_val, close_val) \<Rightarrow>
          (case py_truediv timestamp_ms 1000 of
             Inl e \<Rightarrow> Inl e
           | Inr seconds \<Rightarrow>
               (case datetime_fromtimestamp w seconds of
                  Inl e \<Rightarrow> Inl e
                | Inr date \<Rightarrow> Inr (date, open_val, high_val, low_val, close_val))))"

fun parse_candles ::
  "world \<Rightarrow> pyval list \<Rightarrow> error + (datetime \<times> pyval \<times> pyval \<times> pyval \<times> pyval) list" where
  \<comment> \<open>\<^verbatim>\<open>for candle in data\<close>: the five lists grow together; the first exception ends the loop.\<close>
  "parse_candles w [] = Inr []"
| "parse_candles w (candle # rest) =
     (case parse_candle w candle of
        Inl e \<Rightarrow> Inl e
      | Inr c \<Rightarrow>
          (case parse_candles w rest of
             Inl e \<Rightarrow> Inl e
           | Inr cs \<Rightarrow> Inr (c # cs)))"

definition candle_row ::
  "world \<Rightarrow> nat \<times> datetime \<times> pyval \<times> pyval \<times> pyval \<times> pyval \<Rightarrow> pyval row" where
  \<comment> \<open>The \<open>k\<close>-th row of the frame; its volume is the \<open>k\<close>-th uniform draw.\<close>
  "candle_row w = (\<lambda>(k, date, open_val, high_val, low_val, close_val).
     \<lparr>Date = date, Open = open_val, High = high_val, Low = low_val, Close = close_val,
      Volume = PNum (np_random_uniform 1000000000 5000000000 (random_sample w k))\<rparr>)"

definition coingecko_try :: "world \<Rightarrow> string \<Rightarrow> int \<Rightarrow> error + pyval dataframe option \<times> bool" where
  \<comment> \<open>The body of the \<^verbatim>\<open>try\<close> block: \<open>Inl\<close> is an exception that leaves it.\<close>
  "coingecko_try w coin_id days =
     (case requests_get w (ohlc_url coin_id days) of
        Inl e \<Rightarrow> Inl e
      | Inr response \<Rightarrow>
     (case raise_for_status response of
        Inl e \<Rightarrow> Inl e
      | Inr u \<Rightarrow>
     (case json_body response of
        Inl e \<Rightarrow> Inl e
      | Inr data \<Rightarrow>
          if \<not> truthy data then Inr (None, False)
          else
     (case py_len data of
        Inl e \<Rightarrow> Inl e
      | Inr n \<Rightarrow>
          if n < 2 then Inr (None, False)
          else
     (case py_iter data of
        Inl e \<Rightarrow> Inl e
      | Inr candles \<Rightarrow>
     (case parse_candles w candles of
        Inl e \<Rightarrow> Inl e
      | Inr parsed \<Rightarrow>
          Inr (Some \<lparr>columns = ohlcv_columns,
                     rows = map (candle_row w) (enumerate 0 parsed)\<rparr>, True)))))))"

definition get_coingecko_data :: "world \<Rightarrow> string \<Rightarrow> int \<Rightarrow> pyval dataframe option \<times> bool" where
  "get_coingecko_data w coin_id days =
     (case coingecko_try w coin_id days of
        Inl e \<Rightarrow> (None, False)
      | Inr result \<Rightarrow> result)"

section \<open>The orchestrator: \<^verbatim>\<open>get_data\<close>\<close>

definition coingecko_map :: "(string \<times> string) list" where
  "coingecko_map = [(''BTC-USD'', ''bitcoin''), (''ETH-USD'', ''ethereum''), (''SOL-USD'', ''solana'')]"

definition period_map :: "(string \<times> string) list" where
  "period_map = [(''1m'', ''7d''), (''5m'', ''7d''), (''1h'', ''60d''), (''1d'', ''1y'')]"

definition required_cols :: "string list" where
  "required_cols = [''Open'', ''High'', ''Low'', ''Close'']"

definition map_cells :: "('a \<Rightarrow> 'b) \<Rightarrow> 'a dataframe \<Rightarrow> 'b dataframe" where
  "map_cells f df =
     \<lparr>columns = columns df,
      rows = map (\<lambda>r. \<lparr>Date = Date r, Open = f (Open r), High = f (High r), Low = f (Low r),
                        Close = f (Close r), Volume = f (Volume r)\<rparr>) (rows df)\<rparr>"

definition primary_tier :: "world \<Rightarrow> string \<Rightarrow> (pyval dataframe \<times> bool) option" where
  \<comment> \<open>The CoinGecko block: \<open>Some\<close> is its \<^verbatim>\<open>return\<close>, \<open>None\<close> falls through to the next block.\<close>
  "primary_tier w ticker =
     (case map_of coingecko_map ticker of
        None \<Rightarrow> None
      | Some coin_id \<Rightarrow>
          if coin_id = [] then None
          else (case get_coingecko_data w coin_id 365 of
                  (None, is_live) \<Rightarrow> None
                | (Some data, is_live) \<Rightarrow>
                    if \<not> df_empty data then Some (data, is_live) else None))"

definition secondary_tier :: "world \<Rightarrow> string \<Rightarrow> string \<Rightarrow> (pyval dataframe \<times> bool) option" where
  \<comment> \<open>The Yahoo Finance block, whose \<^verbatim>\<open>except Exception: pass\<close> falls through as well.\<close>
  "secondary_tier w ticker interval =
     (let period = dict_get period_map interval ''1y'' in
      case yf_history w ticker period interval of
        Inl e \<Rightarrow> None
      | Inr data \<Rightarrow>
          if \<not> df_empty data then
            (if list_all (\<lambda>col. col \<in> set (columns data)) required_cols
             then Some (data, True) else None)
          else None)"

definition get_data :: "world \<Rightarrow> string \<Rightarrow> string \<Rightarrow> pyval dataframe \<times> bool" where
  \<comment> \<open>The three blocks in order; the floats of the mock frame are Python numbers like the
      cells of the other two frames.\<close>
  "get_data w ticker interval =
     (case primary_tier w ticker of
        Some result \<Rightarrow> result
      | None \<Rightarrow>
          (case secondary_tier w ticker interval of
             Some result \<Rightarrow> result
           | None \<Rightarrow>
               (let period = dict_get period_map interval ''1y'' in
                (map_cells PNum (generate_mock_data w ticker period interval), False))))"

section \<open>The metrics of \<^verbatim>\<open>display_kpi_metrics\<close>\<close>

record metrics =
  current_price :: real
  previous_price :: real
  price_change :: real
  price_change_pct :: real
  high_24h :: "real option"
  low_24h :: "real option"

definition getitem :: "'c dataframe \<Rightarrow> string \<Rightarrow> error + 'c list" where
  \<comment> \<open>\<^verbatim>\<open>data[name]\<close>, for the columns the model carries.\<close>
  "getitem df name =
     (if name \<notin> set (columns df) then Inl KeyError
      else if name = ''Open'' then Inr (map Open (rows df))
      else if name = ''High'' then Inr (map High (rows df))
      else if name = ''Low'' then Inr (map Low (rows df))
      else if name = ''Close'' then Inr (map Close (rows df))
      else if name = ''Volume'' then Inr (map Volume (rows df))
      else Inl KeyError)"

definition iloc :: "'a list \<Rightarrow> int \<Rightarrow> error + 'a" where
  \<comment> \<open>\<^verbatim>\<open>series.iloc[i]\<close>; a negative position counts from the end.\<close>
  "iloc xs i =
     (if 0 \<le> i \<and> i < int (length xs) then Inr (xs ! nat i)
      else if i < 0 \<and> - i \<le> int (length xs) then Inr (xs ! nat (int (length xs) + i))
      else Inl IndexError)"

definition tail :: "nat \<Rightarrow> 'a list \<Rightarrow> 'a list" where
  \<comment> \<open>\<^verbatim>\<open>series.tail(n)\<close>: the last \<open>n\<close> entries, all of them when there are fewer.\<close>
  "tail n xs = drop (length xs - n) xs"

fun series_max :: "real list \<Rightarrow> real option" where
  \<comment> \<open>\<^verbatim>\<open>series.max()\<close>; \<open>None\<close> stands for the NaN of an empty series.\<close>
  "series_max [] = None"
| "series_max (x # xs) = Some (fold max xs x)"

fun series_min :: "real list \<Rightarrow> real option" where
  "series_min [] = None"
| "series_min (x # xs) = Some (fold min xs x)"

definition display_kpi_metrics :: "real dataframe \<Rightarrow> error + metrics" where
  \<comment> \<open>The values computed before rendering; \<open>Inl\<close> is the \<^verbatim>\<open>except\<close> branch.\<close>
  "display_kpi_metrics data =
     (case getitem data ''Close'' of
        Inl e \<Rightarrow> Inl e
      | Inr close \<Rightarrow>
     (case iloc close (- 1) of
        Inl e \<Rightarrow> Inl e
      | Inr current \<Rightarrow>
     (case (if df_len data > 1 then iloc close (- 2) else Inr current) of
        Inl e \<Rightarrow> Inl e
      | Inr previous \<Rightarrow>
     (case getitem data ''High'' of
        Inl e \<Rightarrow> Inl e
      | Inr high \<Rightarrow>
     (case getitem data ''Low'' of
        Inl e \<Rightarrow> Inl e
      | Inr low \<Rightarrow>
          Inr \<lparr>current_price = current,
               previous_price = previous,
               price_change = current - previous,
               price_change_pct =
                 (if previous \<noteq> 0 then (current - previous) / previous * 100 else 0),
               high_24h =
                 (if df_len data \<ge> 24 then series_max (tail 24 high) else series_max high),
               low_24h =
                 (if df_len data \<ge> 24 then series_min (tail 24 low) else series_min low)\<rparr>)))))"

section \<open>The sentiment score: \<^verbatim>\<open>get_sentiment\<close>\<close>

datatype sentiment_label = BULLISH | NEUTRAL | BEARISH

record sentiment =
  score :: real
  label :: sentiment_label
  headlines :: "string list"

definition mock_headlines :: "string list" where
  "mock_headlines =
     [''Bitcoin rallies as institutional investors show strong interest'',
      ''Ethereum network upgrade improves transaction efficiency significantly'',
      ''Solana addresses scalability concerns with latest protocol update'',
      ''Cryptocurrency market shows signs of recovery and stability'',
      ''New regulatory framework could boost crypto adoption'',
      ''Market volatility raises concerns among traders'',
      ''Technical analysis indicates potential breakout patterns'',
      ''Experts remain optimistic about long-term crypto potential'']"

fun polarity_scores :: "world \<Rightarrow> string list \<Rightarrow> error + real list" where
  \<comment> \<open>\<^verbatim>\<open>for headline in selected_headlines\<close>\<close>
  "polarity_scores w [] = Inr []"
| "polarity_scores w (headline # rest) =
     (case textblob_polarity w headline of
        Inl e \<Rightarrow> Inl e
      | Inr p \<Rightarrow>
          (case polarity_scores w rest of
             Inl e \<Rightarrow> Inl e
           | Inr ps \<Rightarrow> Inr (p # ps)))"

definition sentiment_try :: "world \<Rightarrow> error + sentiment" where
  "sentiment_try w =
     (let selected_headlines = random_sample_of w mock_headlines (random_randint w 3 5) in
      case polarity_scores w selected_headlines of
        Inl e \<Rightarrow> Inl e
      | Inr sentiment_scores \<Rightarrow>
          if sentiment_scores = [] then Inl ZeroDivisionError
          else
            (let avg_sentiment = sum_list sentiment_scores / real (length sentiment_scores);
                 sentiment_percentage = ((avg_sentiment + 1) / 2) * 100
             in Inr \<lparr>score = sentiment_percentage,
                     label = (if sentiment_percentage \<ge> 60 then BULLISH
                              else if sentiment_percentage \<ge> 40 then NEUTRAL
                              else BEARISH),
                     headlines = selected_headlines\<rparr>))"

definition get_sentiment :: "world \<Rightarrow> sentiment" where
  "get_sentiment w =
     (case sentiment_try w of
        Inl e \<Rightarrow> \<lparr>score = 50, label = NEUTRAL, headlines = []\<rparr>
      | Inr result \<Rightarrow> result)"

section \<open>Example worlds\<close>

definition offline_world :: world where
  \<comment> \<open>No network, a clock that stands still, normal draws that make every daily return 0,
      mid-range uniform draws, a sample of the first headlines and a polarity of 0.\<close>
  "offline_world =
     \<lparr>requests_get = (\<lambda>url. Inl ConnectionError),
      datetime_fromtimestamp = (\<lambda>t. Inr (\<lfloor>t * 1000000\<rfloor>)),
      yf_history = (\<lambda>ticker period interval. Inl ConnectionError),
      datetime_now = (\<lambda>k. 1700000000000000),
      standard_normal = (\<lambda>i. - 1 / 15),
      random_sample = (\<lambda>n. 1 / 2),
      random_randint = (\<lambda>a b. a),
      random_sample_of = (\<lambda>population k. take (nat k) population),
      textblob_polarity = (\<lambda>text. Inr 0)\<rparr>"

definition short_candles :: "pyval list" where
  \<comment> \<open>Two candles, the first of which has four items.\<close>
  "short_candles =
     [PList [PNum 1700000000000, PNum 100, PNum 110, PNum 90],
      PList [PNum 1700086400000, PNum 105, PNum 115, PNum 95, PNum 110]]"

definition short_candle_world :: world where
  \<comment> \<open>The provider answers 200 with \<open>short_candles\<close>.\<close>
  "short_candle_world = offline_world\<lparr>requests_get := (\<lambda>url.
     Inr \<lparr>status_code = 200, json_body = Inr (PList short_candles)\<rparr>)\<rparr>"

definition two_candle_world :: world where
  \<comment> \<open>The provider answers 200 with two well-formed candles.\<close>
  "two_candle_world = offline_world\<lparr>requests_get := (\<lambda>url.
     Inr \<lparr>status_code = 200,
          json_body = Inr (PList
            [PList [PNum 1700000000000, PNum 100, PNum 110, PNum 90, PNum 105],
             PList [PNum 1700086400000, PNum 105, PNum 115, PNum 95, PNum 110]])\<rparr>)\<rparr>"

definition yahoo_frame :: "pyval dataframe" where
  "yahoo_frame =
     \<lparr>columns = [''Open'', ''High'', ''Low'', ''Close'', ''Volume'', ''Dividends'', ''Stock Splits''],
      rows = [\<lparr>Date = 1700000000000000, Open = PNum 100, High = PNum 110, Low = PNum 90,
               Close = PNum 105, Volume = PNum 1000\<rparr>,
              \<lparr>Date = 1700086400000000, Open = PNum 105, High = PNum 115, Low = PNum 95,
               Close = PNum 110, Volume = PNum 2000\<rparr>]\<rparr>"

definition yahoo_world :: world where
  \<comment> \<open>The primary provider is unreachable; Yahoo Finance answers with \<open>yahoo_frame\<close>.\<close>
  "yahoo_world = offline_world\<lparr>yf_history := (\<lambda>ticker period interval. Inr yahoo_frame)\<rparr>"

definition one_row_frame :: "pyval dataframe" where
  "one_row_frame =
     \<lparr>columns = [''Open'', ''High'', ''Low'', ''Close'', ''Volume'', ''Dividends'', ''Stock Splits''],
      rows = [\<lparr>Date = 1700000000000000, Open = PNum 100, High = PNum 110, Low = PNum 90,
               Close = PNum 105, Volume = PNum 1000\<rparr>]\<rparr>"

definition one_row_world :: world where
  \<comment> \<open>The primary provider is unreachable; Yahoo Finance answers with a single row.\<close>
  "one_row_world = offline_world\<lparr>yf_history := (\<lambda>ticker period interval. Inr one_row_frame)\<rparr>"

definition two_row_frame :: "real dataframe" where
  "two_row_frame =
     \<lparr>columns = ohlcv_columns,
      rows = [\<lparr>Date = 1700000000000000, Open = 95, High = 104, Low = 93, Close = 100, Volume = 1000\<rparr>,
              \<lparr>Date = 1700086400000000, Open = 100, High = 112, Low = 99, Close = 110, Volume = 2000\<rparr>]\<rparr>"

definition single_row_frame :: "real dataframe" where
  "single_row_frame =
     \<lparr>columns = ohlcv_columns,
      rows = [\<lparr>Date = 1700000000000000, Open = 95, High = 104, Low = 93, Close = 100, Volume = 1000\<rparr>]\<rparr>"

definition ramp_frame :: "real dataframe" where
  \<comment> \<open>25 rows; the oldest one holds the highest high and the lowest low of the series.\<close>
  "ramp_frame =
     \<lparr>columns = ohlcv_columns,
      rows = map (\<lambda>i. \<lparr>Date = int i, Open = 50,
                        High = (if i = 0 then 1000 else 100 + real i),
                        Low = (if i = 0 then 1 else 10 + real i),
                        Close = 50, Volume = 0\<rparr>) [0..<25]\<rparr>"

definition no_lexicon_world :: world where
  \<comment> \<open>The polarity analyser raises on every text (its corpora are missing).\<close>
  "no_lexicon_world = offline_world\<lparr>textblob_polarity := (\<lambda>text. Inl LibraryError)\<rparr>"

section \<open>Properties of the mock data generator\<close>

lemma mock_row_ohlc:
  assumes "0 \<le> random_sample w (5 * i)" "0 \<le> random_sample w (5 * i + 1)"
    and "0 \<le> random_sample w (5 * i + 2)" "random_sample w (5 * i + 3) \<le> 1"
    and "mock_row w i price date = (price', r)" and "0 < price'"
  shows "Low r \<le> min (Open r) (Close r) \<and> max (Open r) (Close r) \<le> High r"
proof -
  define f where "f = np_random_uniform 0.98 1.02 (random_sample w (5 * i))"
  define g where "g = np_random_uniform 0.98 1.02 (random_sample w (5 * i + 1))"
  define h where "h = np_random_uniform 1.0 1.02 (random_sample w (5 * i + 2))"
  define l where "l = np_random_uniform 0.98 1.0 (random_sample w (5 * i + 3))"
  have f: "0 < f" and g: "0 < g" and h: "1 \<le> h" and l: "l \<le> 1"
    using assms(1-4) by (simp_all add: f_def g_def h_def l_def np_random_uniform_def)
  have r: "Open r = price' * f" "Close r = price' * g"
      "High r = max (price' * f) (price' * g) * h"
      "Low r = min (price' * f) (price' * g) * l"
    using assms(5) by (auto simp: mock_row_def Let_def f_def g_def h_def l_def)
  have pos: "0 < price' * f" "0 < price' * g"
    using assms(6) f g by simp_all
  have "0 < min (price' * f) (price' * g)" "0 < max (price' * f) (price' * g)"
    using pos by simp_all
  then have "min (price' * f) (price' * g) * l \<le> min (price' * f) (price' * g) * 1"
      "max (price' * f) (price' * g) * 1 \<le> max (price' * f) (price' * g) * h"
    using h l by (simp_all only: mult_le_cancel_left_pos)
  then show ?thesis by (simp add: r)
qed

lemma length_mock_loop: "length (mock_loop w i price dates) = length dates"
  by (induction dates arbitrary: i price) (auto split: prod.splits)

lemma length_range_down: "length (range_down n) = n"
  by (simp add: range_down_def)

lemma length_mock_dates: "length (mock_dates w n) = n"
  by (simp add: mock_dates_def length_range_down)

lemma length_mock_trace: "length (mock_trace w ticker interval) = num_periods interval"
  by (simp add: mock_trace_def length_mock_loop length_mock_dates)

lemma range_down_nth: "k < n \<Longrightarrow> range_down n ! k = n - k"
  unfolding range_down_def by (simp add: rev_nth del: upt_Suc)

lemma mock_dates_nth:
  "k < n \<Longrightarrow> mock_dates w n ! k = datetime_now w k - timedelta (int (n - k))"
  by (simp add: mock_dates_def length_range_down nth_enumerate_eq range_down_nth)

lemma mock_loop_nth:
  "k < length dates \<Longrightarrow>
   \<exists>p. mock_loop w i price dates ! k = mock_row w (i + k) p (dates ! k)"
proof (induction dates arbitrary: i price k)
  case Nil
  then show ?case by simp
next
  case (Cons d ds)
  show ?case
  proof (cases k)
    case 0
    have "mock_loop w i price (d # ds) ! 0 = mock_row w i price d"
      by (simp split: prod.splits)
    then show ?thesis using 0 by auto
  next
    case (Suc j)
    with Cons.prems have "j < length ds" by simp
    from Cons.IH[OF this, of "Suc i" "fst (mock_row w i price d)"]
    show ?thesis using Suc by (auto split: prod.splits)
  qed
qed

lemma mock_loop_hd:
  "mock_loop w i price (d # ds) ! 0 = mock_row w i price d"
  by (simp split: prod.splits)

lemma mock_dates_Suc:
  "mock_dates w (Suc n) = (datetime_now w 0 - timedelta (int (Suc n))) # tl (mock_dates w (Suc n))"
proof -
  have "mock_dates w (Suc n) \<noteq> []" using length_mock_dates[of w "Suc n"] by auto
  moreover have "mock_dates w (Suc n) ! 0 = datetime_now w 0 - timedelta (int (Suc n))"
    using mock_dates_nth[of 0 "Suc n" w] by simp
  ultimately show ?thesis by (cases "mock_dates w (Suc n)") auto
qed

lemma num_periods_pos: "0 < num_periods interval"
  by (simp add: num_periods_def)

lemma mock_trace_first:
  "mock_trace w ticker interval ! 0 =
     mock_row w 0 (dict_get base_prices ticker 1000)
       (datetime_now w 0 - timedelta (int (num_periods interval)))"
proof -
  obtain n where n: "num_periods interval = Suc n"
    using num_periods_pos[of interval] by (cases "num_periods interval") auto
  show ?thesis
    unfolding mock_trace_def n
    by (subst mock_dates_Suc) (simp only: mock_loop_hd)
qed

lemma map_date_mock_loop: "map (\<lambda>x. Date (snd x)) (mock_loop w i price dates) = dates"
  by (induction dates arbitrary: i price) (auto simp: mock_row_def Let_def split: prod.splits)

text \<open>
  Claim C10. In every row that the generator makes from a positive running price, the low
  is at most the smaller of open and close, which is at most the larger of the two, which
  is at most the high: the high is that larger value times a factor of \<open>[1, 1.02]\<close> and the
  low is the smaller value times a factor of \<open>[0.98, 1]\<close>. The uniform draws are those of
  \<^verbatim>\<open>np.random\<close>, each in \<open>[0, 1)\<close>.
\<close>

theorem generated_rows_keep_ohlc_order:
  assumes "\<forall>n. 0 \<le> random_sample w n \<and> random_sample w n < 1"
    and "k < length (rows (generate_mock_data w ticker period interval))"
    and "0 < fst (mock_trace w ticker interval ! k)"
  shows "Low (rows (generate_mock_data w ticker period interval) ! k)
           \<le> min (Open (rows (generate_mock_data w ticker period interval) ! k))
                 (Close (rows (generate_mock_data w ticker period interval) ! k))
       \<and> min (Open (rows (generate_mock_data w ticker period interval) ! k))
             (Close (rows (generate_mock_data w ticker period interval) ! k))
           \<le> max (Open (rows (generate_mock_data w ticker period interval) ! k))
                 (Close (rows (generate_mock_data w ticker period interval) ! k))
       \<and> max (Open (rows (generate_mock_data w ticker period interval) ! k))
             (Close (rows (generate_mock_data w ticker period interval) ! k))
           \<le> High (rows (generate_mock_data w ticker period interval) ! k)"
proof -
  let ?tr = "mock_trace w ticker interval"
  have k: "k < length ?tr"
    using assms(2) by (simp add: generate_mock_data_def)
  then have kd: "k < length (mock_dates w (num_periods interval))"
    by (simp add: mock_trace_def length_mock_loop)
  obtain p where p: "?tr ! k = mock_row w (0 + k) p (mock_dates w (num_periods interval) ! k)"
    using mock_loop_nth[OF kd] unfolding mock_trace_def by blast
  define r where "r = snd (?tr ! k)"
  have row: "rows (generate_mock_data w ticker period interval) ! k = r"
    using k by (simp add: generate_mock_data_def r_def)
  have eq: "mock_row w k p (mock_dates w (num_periods interval) ! k) = (fst (?tr ! k), r)"
    using p by (simp add: r_def)
  have "Low r \<le> min (Open r) (Close r) \<and> max (Open r) (Close r) \<le> High r"
    using mock_row_ohlc[OF _ _ _ _ eq assms(3)] assms(1) by (simp add: less_imp_le)
  then show ?thesis unfolding row by simp
qed

theorem generated_rows_keep_ohlc_order_witness:
  "(\<forall>n. 0 \<le> random_sample offline_world n \<and> random_sample offline_world n < 1)
   \<and> 0 < length (rows (generate_mock_data offline_world ''BTC-USD'' ''1y'' ''1d''))
   \<and> 0 < fst (mock_trace offline_world ''BTC-USD'' ''1d'' ! 0)
   \<and> Low (rows (generate_mock_data offline_world ''BTC-USD'' ''1y'' ''1d'') ! 0)
       \<le> min (Open (rows (generate_mock_data offline_world ''BTC-USD'' ''1y'' ''1d'') ! 0))
             (Close (rows (generate_mock_data offline_world ''BTC-USD'' ''1y'' ''1d'') ! 0))
   \<and> max (Open (rows (generate_mock_data offline_world ''BTC-USD'' ''1y'' ''1d'') ! 0))
         (Close (rows (generate_mock_data offline_world ''BTC-USD'' ''1y'' ''1d'') ! 0))
       \<le> High (rows (generate_mock_data offline_world ''BTC-USD'' ''1y'' ''1d'') ! 0)"
proof -
  have u: "\<forall>n. 0 \<le> random_sample offline_world n \<and> random_sample offline_world n < 1"
    by (simp add: offline_world_def)
  have len: "0 < length (rows (generate_mock_data offline_world ''BTC-USD'' ''1y'' ''1d''))"
    by (simp add: generate_mock_data_def length_mock_trace num_periods_pos)
  have p: "0 < fst (mock_trace offline_world ''BTC-USD'' ''1d'' ! 0)"
    by (simp add: mock_trace_first mock_row_def Let_def dict_get_def base_prices_def
        offline_world_def np_random_normal_def np_random_uniform_def)
  show ?thesis
    using generated_rows_keep_ohlc_order[OF u len p] u len p by simp
qed

lemma mock_row_positive:
  assumes "\<forall>n. 0 \<le> random_sample w n \<and> random_sample w n < 1"
    and "0 < price" and "- 1 < np_random_normal 0.002 0.03 (standard_normal w i)"
    and "mock_row w i price date = (price', r)"
  shows "0 < price' \<and> 0 < Open r \<and> 0 < High r \<and> 0 < Low r \<and> 0 < Close r"
proof -
  define f where "f = np_random_uniform 0.98 1.02 (random_sample w (5 * i))"
  define g where "g = np_random_uniform 0.98 1.02 (random_sample w (5 * i + 1))"
  define h where "h = np_random_uniform 1.0 1.02 (random_sample w (5 * i + 2))"
  define l where "l = np_random_uniform 0.98 1.0 (random_sample w (5 * i + 3))"
  have u: "0 \<le> random_sample w (5 * i)" "0 \<le> random_sample w (5 * i + 1)"
      "0 \<le> random_sample w (5 * i + 2)" "0 \<le> random_sample w (5 * i + 3)"
    using assms(1) by simp_all
  have fac: "0 < f" "0 < g" "0 < h" "0 < l"
    using u by (simp_all add: f_def g_def h_def l_def np_random_uniform_def add_pos_nonneg)
  have p': "price' = price * (1 + np_random_normal 0.002 0.03 (standard_normal w i))"
    using assms(4) by (auto simp: mock_row_def Let_def)
  have pos: "0 < price'"
    unfolding p' using assms(2,3) by (intro mult_pos_pos) simp_all
  have r: "Open r = price' * f" "Close r = price' * g"
      "High r = max (price' * f) (price' * g) * h"
      "Low r = min (price' * f) (price' * g) * l"
    using assms(4) by (auto simp: mock_row_def Let_def f_def g_def h_def l_def)
  have oc: "0 < price' * f" "0 < price' * g"
    using pos fac by simp_all
  then have "0 < max (price' * f) (price' * g)" "0 < min (price' * f) (price' * g)"
    by simp_all
  then have "0 < max (price' * f) (price' * g) * h" "0 < min (price' * f) (price' * g) * l"
    using fac by (simp_all only: mult_pos_pos)
  then show ?thesis using pos oc by (simp add: r)
qed

lemma mock_loop_positive:
  assumes "\<forall>n. 0 \<le> random_sample w n \<and> random_sample w n < 1"
  shows "0 < price \<Longrightarrow>
    (\<forall>j < length dates. - 1 < np_random_normal 0.002 0.03 (standard_normal w (i + j))) \<Longrightarrow>
    x \<in> set (mock_loop w i price dates) \<Longrightarrow>
    0 < Open (snd x) \<and> 0 < High (snd x) \<and> 0 < Low (snd x) \<and> 0 < Close (snd x)"
proof (induction dates arbitrary: i price)
  case Nil
  then show ?case by simp
next
  case (Cons d ds)
  obtain p' r where row: "mock_row w i price d = (p', r)"
    by (cases "mock_row w i price d")
  have ret0: "- 1 < np_random_normal 0.002 0.03 (standard_normal w i)"
    using Cons.prems(2) by force
  note here = mock_row_positive[OF assms Cons.prems(1) ret0 row]
  have rest: "\<forall>j < length ds. - 1 < np_random_normal 0.002 0.03 (standard_normal w (Suc i + j))"
  proof (intro allI impI)
    fix j assume "j < length ds"
    then have "Suc j < length (d # ds)" by simp
    with Cons.prems(2) have "- 1 < np_random_normal 0.002 0.03 (standard_normal w (i + Suc j))"
      by blast
    then show "- 1 < np_random_normal 0.002 0.03 (standard_normal w (Suc i + j))" by simp
  qed
  from Cons.prems(3) row have "x = (p', r) \<or> x \<in> set (mock_loop w (Suc i) p' ds)"
    by simp
  then show ?case
  proof
    assume "x = (p', r)"
    then show ?thesis using here by simp
  next
    assume "x \<in> set (mock_loop w (Suc i) p' ds)"
    then show ?thesis using Cons.IH[of p' "Suc i"] here rest by blast
  qed
qed

lemma base_price_pos: "0 < dict_get base_prices ticker 1000"
  by (simp add: dict_get_def base_prices_def)

lemma mock_dates_increasing:
  assumes "\<forall>k. datetime_now w k < datetime_now w (Suc k) + timedelta 1"
  shows "sorted_wrt (<) (mock_dates w n)"
proof -
  define g where "g k = datetime_now w k + timedelta (int k)" for k
  have step: "g k < g (Suc k)" for k
    using assms by (simp add: g_def timedelta_def algebra_simps)
  have mono: "i < j \<Longrightarrow> g i < g j" for i j
    using step by (rule lift_Suc_mono_less)
  have "mock_dates w n ! i < mock_dates w n ! j" if "i < j" "j < n" for i j
  proof -
    have "g i < g j" using mono that(1) .
    moreover have "int (n - i) = int n - int i" "int (n - j) = int n - int j"
      using that by simp_all
    ultimately show ?thesis
      using that by (simp add: mock_dates_nth g_def timedelta_def algebra_simps)
  qed
  then show ?thesis
    by (simp add: sorted_wrt_iff_nth_less length_mock_dates)
qed

lemma bounded_return:
  assumes "- 13 \<le> z"
  shows "- 1 < np_random_normal 0.002 0.03 z"
  using assms by (simp add: np_random_normal_def)

text \<open>
  Claim C9. For every asset id, lookback period and interval, the series that the
  generator produces has strictly increasing timestamps and strictly positive open, high,
  low and close in every row. The environment is that of the program: the clock does not
  fall back by a day or more between two readings, a uniform draw lies in \<open>[0, 1)\<close> and a
  standard normal draw is not below \<open>-13\<close>, so that every daily return is above \<open>-0.39\<close>.
\<close>

theorem generated_series_increasing_and_positive:
  assumes "\<forall>k. datetime_now w k < datetime_now w (Suc k) + timedelta 1"
    and "\<forall>n. 0 \<le> random_sample w n \<and> random_sample w n < 1"
    and "\<forall>i. - 13 \<le> standard_normal w i"
  shows "sorted_wrt (<) (map Date (rows (generate_mock_data w ticker period interval)))
       \<and> (\<forall>r \<in> set (rows (generate_mock_data w ticker period interval)).
            0 < Open r \<and> 0 < High r \<and> 0 < Low r \<and> 0 < Close r)"
proof
  have "map Date (rows (generate_mock_data w ticker period interval))
          = mock_dates w (num_periods interval)"
    by (simp add: generate_mock_data_def mock_trace_def comp_def map_date_mock_loop)
  then show "sorted_wrt (<) (map Date (rows (generate_mock_data w ticker period interval)))"
    using mock_dates_increasing[OF assms(1)] by simp
next
  show "\<forall>r \<in> set (rows (generate_mock_data w ticker period interval)).
          0 < Open r \<and> 0 < High r \<and> 0 < Low r \<and> 0 < Close r"
  proof
    fix r assume "r \<in> set (rows (generate_mock_data w ticker period interval))"
    then obtain x where x: "x \<in> set (mock_trace w ticker interval)" and r: "r = snd x"
      by (auto simp: generate_mock_data_def)
    have ret: "\<forall>j < length (mock_dates w (num_periods interval)).
                 - 1 < np_random_normal 0.002 0.03 (standard_normal w (0 + j))"
      using assms(3) bounded_return by blast
    show "0 < Open r \<and> 0 < High r \<and> 0 < Low r \<and> 0 < Close r"
      using mock_loop_positive[OF assms(2) base_price_pos ret] x
      unfolding mock_trace_def r by blast
  qed
qed

theorem generated_series_increasing_and_positive_witness:
  "(\<forall>k. datetime_now offline_world k < datetime_now offline_world (Suc k) + timedelta 1)
   \<and> (\<forall>n. 0 \<le> random_sample offline_world n \<and> random_sample offline_world n < 1)
   \<and> (\<forall>i. - 13 \<le> standard_normal offline_world i)
   \<and> sorted_wrt (<) (map Date (rows (generate_mock_data offline_world ''BTC-USD'' ''1y'' ''1d'')))
   \<and> 0 < Open (rows (generate_mock_data offline_world ''BTC-USD'' ''1y'' ''1d'') ! 0)
   \<and> 0 < High (rows (generate_mock_data offline_world ''BTC-USD'' ''1y'' ''1d'') ! 0)
   \<and> 0 < Low (rows (generate_mock_data offline_world ''BTC-USD'' ''1y'' ''1d'') ! 0)
   \<and> 0 < Close (rows (generate_mock_data offline_world ''BTC-USD'' ''1y'' ''1d'') ! 0)"
proof -
  have c: "\<forall>k. datetime_now offline_world k < datetime_now offline_world (Suc k) + timedelta 1"
    by (simp add: offline_world_def timedelta_def)
  have u: "\<forall>n. 0 \<le> random_sample offline_world n \<and> random_sample offline_world n < 1"
    by (simp add: offline_world_def)
  have n: "\<forall>i. - 13 \<le> standard_normal offline_world i"
    by (simp add: offline_world_def)
  have mem: "rows (generate_mock_data offline_world ''BTC-USD'' ''1y'' ''1d'') ! 0
      \<in> set (rows (generate_mock_data offline_world ''BTC-USD'' ''1y'' ''1d''))"
    by (rule nth_mem) (simp add: generate_mock_data_def length_mock_trace num_periods_pos)
  show ?thesis
    using generated_series_increasing_and_positive[OF c u n, of "''BTC-USD''" "''1y''" "''1d''"]
      c u n mem by blast
qed

section \<open>Properties of the primary provider\<close>

lemma py_len_iter:
  "py_len v = (case py_iter v of Inl e \<Rightarrow> Inl e | Inr xs \<Rightarrow> Inr (length xs))"
  by (cases v) simp_all

lemma parse_candles_Inr_iff:
  "(\<exists>ps. parse_candles w cs = Inr ps) = (\<forall>c \<in> set cs. \<not> isl (parse_candle w c))"
  by (induction cs) (auto split: sum.splits)

lemma parse_candles_nth:
  "parse_candles w cs = Inr ps \<Longrightarrow>
   length ps = length cs \<and> (\<forall>k < length cs. parse_candle w (cs ! k) = Inr (ps ! k))"
proof (induction cs arbitrary: ps)
  case Nil
  then show ?case by simp
next
  case (Cons c cs)
  then obtain p ps' where p: "parse_candle w c = Inr p" "parse_candles w cs = Inr ps'" "ps = p # ps'"
    by (auto split: sum.splits)
  with Cons.IH[of ps'] show ?case by (auto simp: nth_Cons split: nat.splits)
qed

lemma coingecko_try_success:
  assumes "requests_get w (ohlc_url coin_id days) = Inr response"
    and "\<not> (400 \<le> status_code response \<and> status_code response < 600)"
    and "json_body response = Inr data" and "truthy data"
    and "py_iter data = Inr candles" and "2 \<le> length candles"
    and "parse_candles w candles = Inr ps"
  shows "get_coingecko_data w coin_id days
           = (Some \<lparr>columns = ohlcv_columns, rows = map (candle_row w) (enumerate 0 ps)\<rparr>, True)"
  using assms
  by (simp add: get_coingecko_data_def coingecko_try_def raise_for_status_def py_len_iter)

lemma coingecko_try_failure:
  assumes "get_coingecko_data w coin_id days \<noteq> (None, False)"
  shows "\<exists>response data candles ps.
           requests_get w (ohlc_url coin_id days) = Inr response
         \<and> \<not> (400 \<le> status_code response \<and> status_code response < 600)
         \<and> json_body response = Inr data \<and> truthy data
         \<and> py_iter data = Inr candles \<and> 2 \<le> length candles
         \<and> parse_candles w candles = Inr ps"
  using assms
  by (auto simp: get_coingecko_data_def coingecko_try_def raise_for_status_def py_len_iter
      split: sum.splits if_splits)

lemma parse_candle_Inr_iff:
  "(parse_candle w candle = Inr (date, open_val, high_val, low_val, close_val)) =
     (\<exists>timestamp_ms seconds.
        py_iter candle = Inr [timestamp_ms, open_val, high_val, low_val, close_val]
      \<and> py_truediv timestamp_ms 1000 = Inr seconds
      \<and> datetime_fromtimestamp w seconds = Inr date)"
proof -
  have five: "length xs = 5 \<Longrightarrow> xs = [xs ! 0, xs ! 1, xs ! 2, xs ! 3, xs ! 4]" for xs :: "pyval list"
    by (auto simp: list_eq_iff_nth_eq nth_Cons less_Suc_eq numeral_2_eq_2 numeral_3_eq_3
        eval_nat_numeral split: nat.splits)
  show ?thesis
  proof
    assume a: "parse_candle w candle = Inr (date, open_val, high_val, low_val, close_val)"
    then obtain xs where xs: "py_iter candle = Inr xs" "length xs = 5"
      by (auto simp: parse_candle_def unpack5_def split: sum.splits if_splits)
    from a xs obtain seconds where
      "py_truediv (xs ! 0) 1000 = Inr seconds" "datetime_fromtimestamp w seconds = Inr date"
      "open_val = xs ! 1" "high_val = xs ! 2" "low_val = xs ! 3" "close_val = xs ! 4"
      by (auto simp: parse_candle_def unpack5_def split: sum.splits)
    then show "\<exists>timestamp_ms seconds.
        py_iter candle = Inr [timestamp_ms, open_val, high_val, low_val, close_val]
      \<and> py_truediv timestamp_ms 1000 = Inr seconds
      \<and> datetime_fromtimestamp w seconds = Inr date"
      using xs five[OF xs(2)] by metis
  next
    assume "\<exists>timestamp_ms seconds.
        py_iter candle = Inr [timestamp_ms, open_val, high_val, low_val, close_val]
      \<and> py_truediv timestamp_ms 1000 = Inr seconds
      \<and> datetime_fromtimestamp w seconds = Inr date"
    then show "parse_candle w candle = Inr (date, open_val, high_val, low_val, close_val)"
      by (auto simp: parse_candle_def unpack5_def)
  qed
qed

lemma candle_rows_nth:
  assumes "k < length ps"
  shows "ps ! k = (Date (map (candle_row w) (enumerate 0 ps) ! k),
                   Open (map (candle_row w) (enumerate 0 ps) ! k),
                   High (map (candle_row w) (enumerate 0 ps) ! k),
                   Low (map (candle_row w) (enumerate 0 ps) ! k),
                   Close (map (candle_row w) (enumerate 0 ps) ! k))"
  using assms by (cases "ps ! k") (simp add: nth_enumerate_eq candle_row_def)

text \<open>
  Claim C5, as amended. \<^verbatim>\<open>get_coingecko_data\<close> returns \<open>(None, False)\<close> exactly when the
  request raises (connection error, timeout), the status is an HTTP error status, the body
  does not decode, the decoded value is empty, is not a container or holds fewer than two
  entries, or some entry is not a candle (it does not unpack into exactly five items, its
  first item is not a number, or the timestamp conversion rejects it). In every other case
  it returns \<open>True\<close> with a frame that has one row per entry, in order, holding the
  entry's timestamp and its open, high, low and close.
\<close>

theorem get_coingecko_data_outcomes:
  "(get_coingecko_data w coin_id days = (None, False)) =
     (\<forall>response data candles.
        requests_get w (ohlc_url coin_id days) = Inr response
        \<and> \<not> (400 \<le> status_code response \<and> status_code response < 600)
        \<and> json_body response = Inr data \<and> truthy data
        \<and> py_iter data = Inr candles \<and> 2 \<le> length candles
        \<longrightarrow> (\<exists>c \<in> set candles. isl (parse_candle w c)))
   \<and> (get_coingecko_data w coin_id days \<noteq> (None, False) \<longrightarrow>
        (\<exists>response data candles df.
           requests_get w (ohlc_url coin_id days) = Inr response
         \<and> json_body response = Inr data \<and> py_iter data = Inr candles
         \<and> get_coingecko_data w coin_id days = (Some df, True)
         \<and> columns df = ohlcv_columns \<and> length (rows df) = length candles
         \<and> (\<forall>k < length candles.
              parse_candle w (candles ! k)
                = Inr (Date (rows df ! k), Open (rows df ! k), High (rows df ! k),
                       Low (rows df ! k), Close (rows df ! k)))))"
proof (intro conjI impI)
  show "(get_coingecko_data w coin_id days = (None, False)) =
     (\<forall>response data candles.
        requests_get w (ohlc_url coin_id days) = Inr response
        \<and> \<not> (400 \<le> status_code response \<and> status_code response < 600)
        \<and> json_body response = Inr data \<and> truthy data
        \<and> py_iter data = Inr candles \<and> 2 \<le> length candles
        \<longrightarrow> (\<exists>c \<in> set candles. isl (parse_candle w c)))"
    (is "?fail = ?cond")
  proof
    assume f: ?fail
    show ?cond
    proof (intro allI impI)
      fix response data candles
      assume a: "requests_get w (ohlc_url coin_id days) = Inr response
        \<and> \<not> (400 \<le> status_code response \<and> status_code response < 600)
        \<and> json_body response = Inr data \<and> truthy data
        \<and> py_iter data = Inr candles \<and> 2 \<le> length candles"
      show "\<exists>c \<in> set candles. isl (parse_candle w c)"
      proof (rule ccontr)
        assume "\<not> (\<exists>c \<in> set candles. isl (parse_candle w c))"
        then obtain ps where "parse_candles w candles = Inr ps"
          using parse_candles_Inr_iff[of w candles] by auto
        with a have "get_coingecko_data w coin_id days \<noteq> (None, False)"
          using coingecko_try_success[of w coin_id days response data candles ps] by simp
        with f show False by simp
      qed
    qed
  next
    assume c: ?cond
    show ?fail
    proof (rule ccontr)
      assume "\<not> ?fail"
      from coingecko_try_failure[OF this] obtain response data candles ps where
        a: "requests_get w (ohlc_url coin_id days) = Inr response"
          "\<not> (400 \<le> status_code response \<and> status_code response < 600)"
          "json_body response = Inr data" "truthy data"
          "py_iter data = Inr candles" "2 \<le> length candles"
        and ps: "parse_candles w candles = Inr ps"
        by blast
      from ps have "\<forall>c \<in> set candles. \<not> isl (parse_candle w c)"
        using parse_candles_Inr_iff[of w candles] by auto
      moreover from c a have "\<exists>c \<in> set candles. isl (parse_candle w c)" by blast
      ultimately show False by blast
    qed
  qed
next
  assume "get_coingecko_data w coin_id days \<noteq> (None, False)"
  from coingecko_try_failure[OF this] obtain response data candles ps where
    a: "requests_get w (ohlc_url coin_id days) = Inr response"
      "\<not> (400 \<le> status_code response \<and> status_code response < 600)"
      "json_body response = Inr data" "truthy data"
      "py_iter data = Inr candles" "2 \<le> length candles"
    and ps: "parse_candles w candles = Inr ps"
    by blast
  define df where "df = \<lparr>columns = ohlcv_columns, rows = map (candle_row w) (enumerate 0 ps)\<rparr>"
  have res: "get_coingecko_data w coin_id days = (Some df, True)"
    unfolding df_def using coingecko_try_success[OF a ps] .
  have len: "length ps = length candles"
    and nth: "\<forall>k < length candles. parse_candle w (candles ! k) = Inr (ps ! k)"
    using parse_candles_nth[OF ps] by simp_all
  have "\<forall>k < length candles.
          parse_candle w (candles ! k)
            = Inr (Date (rows df ! k), Open (rows df ! k), High (rows df ! k),
                   Low (rows df ! k), Close (rows df ! k))"
  proof (intro allI impI)
    fix k assume k: "k < length candles"
    then have "k < length ps" using len by simp
    from candle_rows_nth[OF this, of w] nth k
    show "parse_candle w (candles ! k)
            = Inr (Date (rows df ! k), Open (rows df ! k), High (rows df ! k),
                   Low (rows df ! k), Close (rows df ! k))"
      by (simp add: df_def)
  qed
  moreover have "columns df = ohlcv_columns" "length (rows df) = length candles"
    using len by (simp_all add: df_def)
  ultimately show "\<exists>response data candles df.
           requests_get w (ohlc_url coin_id days) = Inr response
         \<and> json_body response = Inr data \<and> py_iter data = Inr candles
         \<and> get_coingecko_data w coin_id days = (Some df, True)
         \<and> columns df = ohlcv_columns \<and> length (rows df) = length candles
         \<and> (\<forall>k < length candles.
              parse_candle w (candles ! k)
                = Inr (Date (rows df ! k), Open (rows df ! k), High (rows df ! k),
                       Low (rows df ! k), Close (rows df ! k)))"
    using a res by blast
qed

lemma two_candle_world_result:
  "get_coingecko_data two_candle_world ''bitcoin'' 365 =
     (Some \<lparr>columns = ohlcv_columns,
            rows = [\<lparr>Date = 1700000000000000, Open = PNum 100, High = PNum 110, Low = PNum 90,
                     Close = PNum 105, Volume = PNum 3000000000\<rparr>,
                    \<lparr>Date = 1700086400000000, Open = PNum 105, High = PNum 115, Low = PNum 95,
                     Close = PNum 110, Volume = PNum 3000000000\<rparr>]\<rparr>, True)"
  by (simp add: get_coingecko_data_def coingecko_try_def two_candle_world_def offline_world_def
      raise_for_status_def parse_candle_def unpack5_def enumerate_eq_zip candle_row_def
      np_random_uniform_def upt_rec)

theorem get_coingecko_data_outcomes_witness:
  "get_coingecko_data two_candle_world ''bitcoin'' 365 \<noteq> (None, False)
   \<and> (\<exists>response data candles df.
           requests_get two_candle_world (ohlc_url ''bitcoin'' 365) = Inr response
         \<and> json_body response = Inr data \<and> py_iter data = Inr candles
         \<and> get_coingecko_data two_candle_world ''bitcoin'' 365 = (Some df, True)
         \<and> columns df = ohlcv_columns \<and> length (rows df) = length candles
         \<and> (\<forall>k < length candles.
              parse_candle two_candle_world (candles ! k)
                = Inr (Date (rows df ! k), Open (rows df ! k), High (rows df ! k),
                       Low (rows df ! k), Close (rows df ! k))))"
proof -
  have ok: "get_coingecko_data two_candle_world ''bitcoin'' 365 \<noteq> (None, False)"
    by (simp add: two_candle_world_result)
  show ?thesis
    using get_coingecko_data_outcomes[of two_candle_world "''bitcoin''" 365] ok by blast
qed

theorem get_coingecko_data_failure_counterexample:
  "requests_get short_candle_world (ohlc_url ''bitcoin'' 365)
     = Inr \<lparr>status_code = 200, json_body = Inr (PList short_candles)\<rparr>
   \<and> length short_candles = 2
   \<and> get_coingecko_data short_candle_world ''bitcoin'' 365 = (None, False)"
  by (simp add: get_coingecko_data_def coingecko_try_def short_candle_world_def offline_world_def
      short_candles_def raise_for_status_def parse_candle_def unpack5_def)

section \<open>Properties of the orchestrator\<close>

lemma get_coingecko_data_shape:
  "get_coingecko_data w coin_id days = (None, False)
   \<or> (\<exists>df. get_coingecko_data w coin_id days = (Some df, True)
            \<and> columns df = ohlcv_columns \<and> 2 \<le> length (rows df))"
proof (cases "get_coingecko_data w coin_id days = (None, False)")
  case True
  then show ?thesis by simp
next
  case False
  from coingecko_try_failure[OF this] obtain response data candles ps where
    a: "requests_get w (ohlc_url coin_id days) = Inr response"
      "\<not> (400 \<le> status_code response \<and> status_code response < 600)"
      "json_body response = Inr data" "truthy data"
      "py_iter data = Inr candles" "2 \<le> length candles"
    and ps: "parse_candles w candles = Inr ps"
    by blast
  have "length ps = length candles" using parse_candles_nth[OF ps] by simp
  then show ?thesis using coingecko_try_success[OF a ps] a(6) by simp
qed

lemma primary_tier_Some:
  assumes "primary_tier w ticker = Some (data, is_live)"
  shows "is_live \<and> 2 \<le> df_len data"
proof -
  from assms obtain coin_id where
    r: "get_coingecko_data w coin_id 365 = (Some data, is_live)"
    by (auto simp: primary_tier_def split: option.splits if_splits prod.splits)
  with get_coingecko_data_shape[of w coin_id 365] show ?thesis
    by (auto simp: df_len_def)
qed

lemma primary_tier_None:
  assumes "\<forall>coin_id. map_of coingecko_map ticker = Some coin_id
             \<longrightarrow> fst (get_coingecko_data w coin_id 365) = None"
  shows "primary_tier w ticker = None"
  using assms by (auto simp: primary_tier_def split: option.splits prod.splits)

lemma secondary_tier_Some:
  "(secondary_tier w ticker interval = Some (data, is_live)) =
     (is_live \<and> yf_history w ticker (dict_get period_map interval ''1y'') interval = Inr data
      \<and> \<not> df_empty data \<and> set required_cols \<subseteq> set (columns data))"
  by (auto simp: secondary_tier_def Let_def list_all_iff split: sum.splits)

lemma secondary_tier_None:
  "(secondary_tier w ticker interval = None) =
     (case yf_history w ticker (dict_get period_map interval ''1y'') interval of
        Inl e \<Rightarrow> True
      | Inr data \<Rightarrow> df_empty data \<or> \<not> set required_cols \<subseteq> set (columns data))"
  by (auto simp: secondary_tier_def Let_def list_all_iff split: sum.splits)

lemma df_len_mock:
  "df_len (map_cells f (generate_mock_data w ticker period interval)) = num_periods interval"
  by (simp add: df_len_def map_cells_def generate_mock_data_def length_mock_trace)

lemma num_periods_ge: "365 \<le> num_periods interval"
  by (simp add: num_periods_def)

lemma get_data_mock:
  assumes "primary_tier w ticker = None" and "secondary_tier w ticker interval = None"
  shows "get_data w ticker interval
           = (map_cells PNum (generate_mock_data w ticker (dict_get period_map interval ''1y'') interval),
              False)"
  using assms by (simp add: get_data_def)

text \<open>
  Claim C3. When the primary provider fails and the secondary provider answers with a
  non-empty table that has the Open, High, Low and Close columns, \<^verbatim>\<open>get_data\<close> returns
  exactly that table, with \<open>is_live = True\<close>.
\<close>

theorem get_data_secondary_success:
  assumes "\<forall>coin_id. map_of coingecko_map ticker = Some coin_id
             \<longrightarrow> fst (get_coingecko_data w coin_id 365) = None"
    and "yf_history w ticker (dict_get period_map interval ''1y'') interval = Inr data"
    and "\<not> df_empty data"
    and "set required_cols \<subseteq> set (columns data)"
  shows "get_data w ticker interval = (data, True)"
proof -
  have "primary_tier w ticker = None"
    using assms(1) by (rule primary_tier_None)
  moreover have "secondary_tier w ticker interval = Some (data, True)"
    using assms(2-4) by (simp add: secondary_tier_Some)
  ultimately show ?thesis by (simp add: get_data_def)
qed

lemma offline_primary:
  "get_coingecko_data (offline_world\<lparr>yf_history := y\<rparr>) coin_id days = (None, False)"
  by (simp add: get_coingecko_data_def coingecko_try_def offline_world_def)

theorem get_data_secondary_success_witness:
  "(\<forall>coin_id. fst (get_coingecko_data yahoo_world coin_id 365) = None)
   \<and> yf_history yahoo_world ''BTC-USD'' (dict_get period_map ''1d'' ''1y'') ''1d'' = Inr yahoo_frame
   \<and> \<not> df_empty yahoo_frame
   \<and> set required_cols \<subseteq> set (columns yahoo_frame)
   \<and> get_data yahoo_world ''BTC-USD'' ''1d'' = (yahoo_frame, True)"
proof -
  have p: "\<forall>coin_id. fst (get_coingecko_data yahoo_world coin_id 365) = None"
    by (simp add: yahoo_world_def offline_primary)
  then have p': "\<forall>coin_id. map_of coingecko_map ''BTC-USD'' = Some coin_id
             \<longrightarrow> fst (get_coingecko_data yahoo_world coin_id 365) = None"
    by blast
  have y: "yf_history yahoo_world ''BTC-USD'' (dict_get period_map ''1d'' ''1y'') ''1d'' = Inr yahoo_frame"
    by (simp add: yahoo_world_def offline_world_def)
  have e: "\<not> df_empty yahoo_frame"
    by (simp add: df_empty_def yahoo_frame_def)
  have c: "set required_cols \<subseteq> set (columns yahoo_frame)"
    by (simp add: required_cols_def yahoo_frame_def)
  show ?thesis
    using get_data_secondary_success[OF p' y e c] p y e c by blast
qed

text \<open>
  Claim C4. When both providers fail, \<^verbatim>\<open>get_data\<close> returns \<open>is_live = False\<close> and the series
  of the mock generator, whose length follows from the interval alone: 365 rows for
  \<^verbatim>\<open>1d\<close>, 1440 for \<^verbatim>\<open>1h\<close>, 2016 for \<^verbatim>\<open>5m\<close> and 10080 for anything else.
\<close>

theorem get_data_both_fail:
  assumes "\<forall>coin_id. map_of coingecko_map ticker = Some coin_id
             \<longrightarrow> fst (get_coingecko_data w coin_id 365) = None"
    and "case yf_history w ticker (dict_get period_map interval ''1y'') interval of
           Inl e \<Rightarrow> True
         | Inr data \<Rightarrow> df_empty data \<or> \<not> set required_cols \<subseteq> set (columns data)"
  shows "snd (get_data w ticker interval) = False
       \<and> fst (get_data w ticker interval)
           = map_cells PNum
               (generate_mock_data w ticker (dict_get period_map interval ''1y'') interval)
       \<and> df_len (fst (get_data w ticker interval))
           = (if interval = ''1d'' then 365
              else if interval = ''1h'' then 1440
              else if interval = ''5m'' then 2016
              else 10080)"
proof -
  have "primary_tier w ticker = None"
    using assms(1) by (rule primary_tier_None)
  moreover have "secondary_tier w ticker interval = None"
    using assms(2) by (simp add: secondary_tier_None)
  ultimately have "get_data w ticker interval
      = (map_cells PNum (generate_mock_data w ticker (dict_get period_map interval ''1y'') interval),
         False)"
    by (rule get_data_mock)
  then show ?thesis
    by (simp add: df_len_mock num_periods_def)
qed

theorem get_data_both_fail_witness:
  "(\<forall>coin_id. fst (get_coingecko_data offline_world coin_id 365) = None)
   \<and> yf_history offline_world ''BTC-USD'' (dict_get period_map ''1d'' ''1y'') ''1d''
       = Inl ConnectionError
   \<and> snd (get_data offline_world ''BTC-USD'' ''1d'') = False
   \<and> df_len (fst (get_data offline_world ''BTC-USD'' ''1d'')) = 365"
proof -
  have p: "\<forall>coin_id. fst (get_coingecko_data offline_world coin_id 365) = None"
    by (simp add: get_coingecko_data_def coingecko_try_def offline_world_def)
  then have p': "\<forall>coin_id. map_of coingecko_map ''BTC-USD'' = Some coin_id
             \<longrightarrow> fst (get_coingecko_data offline_world coin_id 365) = None"
    by blast
  have y: "yf_history offline_world ''BTC-USD'' (dict_get period_map ''1d'' ''1y'') ''1d''
       = Inl ConnectionError"
    by (simp add: offline_world_def)
  then have y': "case yf_history offline_world ''BTC-USD'' (dict_get period_map ''1d'' ''1y'') ''1d'' of
           Inl e \<Rightarrow> True
         | Inr data \<Rightarrow> df_empty data \<or> \<not> set required_cols \<subseteq> set (columns data)"
    by simp
  show ?thesis
    using get_data_both_fail[OF p' y'] p y by (simp add: df_len_mock num_periods_def)
qed

lemma get_data_cases:
  "(\<exists>data. primary_tier w ticker = Some (data, True) \<and> 2 \<le> df_len data
           \<and> get_data w ticker interval = (data, True))
   \<or> (\<exists>data. primary_tier w ticker = None \<and> secondary_tier w ticker interval = Some (data, True)
           \<and> yf_history w ticker (dict_get period_map interval ''1y'') interval = Inr data
           \<and> 1 \<le> df_len data \<and> get_data w ticker interval = (data, True))
   \<or> (primary_tier w ticker = None \<and> secondary_tier w ticker interval = None
       \<and> get_data w ticker interval
           = (map_cells PNum
                (generate_mock_data w ticker (dict_get period_map interval ''1y'') interval),
              False))"
proof (cases "primary_tier w ticker")
  case (Some result)
  obtain data is_live where r: "result = (data, is_live)" by (cases result)
  from primary_tier_Some[of w ticker data is_live] Some r
  have "is_live" "2 \<le> df_len data" by simp_all
  then show ?thesis using Some r by (simp add: get_data_def)
next
  case None
  show ?thesis
  proof (cases "secondary_tier w ticker interval")
    case (Some result)
    obtain data is_live where r: "result = (data, is_live)" by (cases result)
    from Some r have s: "is_live"
        "yf_history w ticker (dict_get period_map interval ''1y'') interval = Inr data"
        "\<not> df_empty data"
      using secondary_tier_Some[of w ticker interval data is_live] by simp_all
    from s(3) have "1 \<le> df_len data"
      by (cases "rows data") (simp_all add: df_empty_def df_len_def)
    then show ?thesis using None Some r s by (simp add: get_data_def)
  next
    case None': None
    show ?thesis using None None' get_data_mock[OF None None'] by simp
  qed
qed

text \<open>
  Claim C1, as amended. For every asset and interval (the supported ones among them)
  \<^verbatim>\<open>get_data\<close> returns a pair of a series and a boolean; no exception leaves it. The
  series is never empty, and it has at least two rows unless it is the table that the
  secondary provider returned after the primary provider failed: that table is only
  checked to be non-empty.
\<close>

theorem get_data_series_length:
  "1 \<le> df_len (fst (get_data w ticker interval))
   \<and> (2 \<le> df_len (fst (get_data w ticker interval))
      \<or> (primary_tier w ticker = None
         \<and> yf_history w ticker (dict_get period_map interval ''1y'') interval
             = Inr (fst (get_data w ticker interval))))"
proof -
  have "2 \<le> df_len (map_cells PNum
          (generate_mock_data w ticker (dict_get period_map interval ''1y'') interval))"
    using num_periods_ge[of interval] by (simp add: df_len_mock)
  then show ?thesis
    using get_data_cases[of w ticker interval] by auto
qed

theorem get_data_series_length_witness:
  "1 \<le> df_len (fst (get_data offline_world ''BTC-USD'' ''1d''))
   \<and> 2 \<le> df_len (fst (get_data offline_world ''BTC-USD'' ''1d''))"
proof -
  have "yf_history offline_world ''BTC-USD'' (dict_get period_map ''1d'' ''1y'') ''1d''
          \<noteq> Inr (fst (get_data offline_world ''BTC-USD'' ''1d''))"
    by (simp add: offline_world_def)
  then show ?thesis
    using get_data_series_length[of offline_world "''BTC-USD''" "''1d''"] by blast
qed

theorem get_data_series_length_counterexample:
  "fst (get_coingecko_data one_row_world ''bitcoin'' 365) = None
   \<and> get_data one_row_world ''BTC-USD'' ''1d'' = (one_row_frame, True)
   \<and> df_len one_row_frame = 1"
proof -
  have c: "get_coingecko_data one_row_world ''bitcoin'' 365 = (None, False)"
    by (simp add: one_row_world_def offline_primary)
  then have p: "primary_tier one_row_world ''BTC-USD'' = None"
    by (simp add: primary_tier_def coingecko_map_def)
  have s: "secondary_tier one_row_world ''BTC-USD'' ''1d'' = Some (one_row_frame, True)"
    by (simp add: secondary_tier_def one_row_world_def one_row_frame_def df_empty_def
        required_cols_def)
  have "df_len one_row_frame = 1"
    by (simp add: df_len_def one_row_frame_def)
  then show ?thesis using c p s by (simp add: get_data_def)
qed

text \<open>
  Claim C2, as amended. The flag \<open>is_live\<close> that \<^verbatim>\<open>get_data\<close> returns is false exactly when
  neither provider supplied the series, and the series is then the mock generator's; it
  is true when the primary or the secondary (Yahoo Finance) provider supplied it.
\<close>

theorem get_data_is_live_iff:
  "snd (get_data w ticker interval)
     = (primary_tier w ticker \<noteq> None \<or> secondary_tier w ticker interval \<noteq> None)
   \<and> (\<not> snd (get_data w ticker interval) \<longrightarrow>
        fst (get_data w ticker interval)
          = map_cells PNum
              (generate_mock_data w ticker (dict_get period_map interval ''1y'') interval))"
  using get_data_cases[of w ticker interval] by auto

theorem get_data_is_live_iff_witness:
  "\<not> snd (get_data offline_world ''BTC-USD'' ''1d'')
   \<and> primary_tier offline_world ''BTC-USD'' = None
   \<and> secondary_tier offline_world ''BTC-USD'' ''1d'' = None
   \<and> fst (get_data offline_world ''BTC-USD'' ''1d'')
       = map_cells PNum
           (generate_mock_data offline_world ''BTC-USD'' (dict_get period_map ''1d'' ''1y'') ''1d'')"
proof -
  have p: "primary_tier offline_world ''BTC-USD'' = None"
    by (simp add: primary_tier_def coingecko_map_def get_coingecko_data_def coingecko_try_def
        offline_world_def)
  have s: "secondary_tier offline_world ''BTC-USD'' ''1d'' = None"
    by (simp add: secondary_tier_def offline_world_def)
  show ?thesis
    using get_data_is_live_iff[of offline_world "''BTC-USD''" "''1d''"] p s by simp
qed

theorem get_data_is_live_counterexample:
  "map_of coingecko_map ''BTC-USD'' = Some ''bitcoin''
   \<and> get_coingecko_data yahoo_world ''bitcoin'' 365 = (None, False)
   \<and> yf_history yahoo_world ''BTC-USD'' ''1y'' ''1d'' = Inr yahoo_frame
   \<and> get_data yahoo_world ''BTC-USD'' ''1d'' = (yahoo_frame, True)"
proof -
  have m: "map_of coingecko_map ''BTC-USD'' = Some ''bitcoin''"
    by (simp add: coingecko_map_def)
  have c: "get_coingecko_data yahoo_world ''bitcoin'' 365 = (None, False)"
    by (simp add: yahoo_world_def offline_primary)
  then have p: "primary_tier yahoo_world ''BTC-USD'' = None"
    by (simp add: primary_tier_def coingecko_map_def)
  have y: "yf_history yahoo_world ''BTC-USD'' ''1y'' ''1d'' = Inr yahoo_frame"
    by (simp add: yahoo_world_def)
  have s: "secondary_tier yahoo_world ''BTC-USD'' ''1d'' = Some (yahoo_frame, True)"
    by (simp add: secondary_tier_def yahoo_world_def yahoo_frame_def df_empty_def
        required_cols_def)
  show ?thesis using m c p y s by (simp add: get_data_def)
qed

section \<open>Properties of the metrics\<close>

lemma iloc_last: "xs \<noteq> [] \<Longrightarrow> iloc xs (- 1) = Inr (last xs)"
  by (cases xs rule: rev_cases) (auto simp: iloc_def nat_add_distrib nth_append)

lemma iloc_second_last: "1 < length xs \<Longrightarrow> iloc xs (- 2) = Inr (xs ! (length xs - 2))"
proof -
  assume a: "1 < length xs"
  then have "nat (int (length xs) + - 2) = length xs - 2" by linarith
  with a show ?thesis by (auto simp: iloc_def)
qed

lemma series_max_eq:
  assumes "xs \<noteq> []"
  shows "series_max xs = Some (Max (set xs))"
proof (cases xs)
  case Nil
  then show ?thesis using assms by simp
next
  case (Cons x ys)
  have "Max (set (x # ys)) = fold max ys x" by (rule Max.set_eq_fold)
  then show ?thesis using Cons by simp
qed

lemma series_min_eq:
  assumes "xs \<noteq> []"
  shows "series_min xs = Some (Min (set xs))"
proof (cases xs)
  case Nil
  then show ?thesis using assms by simp
next
  case (Cons x ys)
  have "Min (set (x # ys)) = fold min ys x" by (rule Min.set_eq_fold)
  then show ?thesis using Cons by simp
qed

lemma getitem_present:
  assumes "set [''Close'', ''High'', ''Low''] \<subseteq> set (columns data)"
  shows "getitem data ''Close'' = Inr (map Close (rows data))"
    and "getitem data ''High'' = Inr (map High (rows data))"
    and "getitem data ''Low'' = Inr (map Low (rows data))"
  using assms by (simp_all add: getitem_def)

lemma kpi_value:
  assumes "rows data \<noteq> []" and "set [''Close'', ''High'', ''Low''] \<subseteq> set (columns data)"
  shows "display_kpi_metrics data =
     Inr \<lparr>current_price = last (map Close (rows data)),
          previous_price = (if 1 < length (rows data)
                            then map Close (rows data) ! (length (rows data) - 2)
                            else last (map Close (rows data))),
          price_change = last (map Close (rows data))
            - (if 1 < length (rows data)
               then map Close (rows data) ! (length (rows data) - 2)
               else last (map Close (rows data))),
          price_change_pct =
            (if (if 1 < length (rows data)
                 then map Close (rows data) ! (length (rows data) - 2)
                 else last (map Close (rows data))) \<noteq> 0
             then (last (map Close (rows data))
                    - (if 1 < length (rows data)
                       then map Close (rows data) ! (length (rows data) - 2)
                       else last (map Close (rows data))))
                  / (if 1 < length (rows data)
                     then map Close (rows data) ! (length (rows data) - 2)
                     else last (map Close (rows data))) * 100
             else 0),
          high_24h = (if 24 \<le> length (rows data) then series_max (tail 24 (map High (rows data)))
                      else series_max (map High (rows data))),
          low_24h = (if 24 \<le> length (rows data) then series_min (tail 24 (map Low (rows data)))
                     else series_min (map Low (rows data)))\<rparr>"
proof -
  have c: "map Close (rows data) \<noteq> []" using assms(1) by simp
  show ?thesis
  proof (cases "1 < length (rows data)")
    case True
    then have "1 < length (map Close (rows data))" by simp
    from iloc_second_last[OF this] iloc_last[OF c] True show ?thesis
      by (simp add: display_kpi_metrics_def getitem_present[OF assms(2)] df_len_def)
  next
    case False
    with iloc_last[OF c] show ?thesis
      by (simp add: display_kpi_metrics_def getitem_present[OF assms(2)] df_len_def)
  qed
qed

text \<open>
  Claim C6. For every non-empty series (one that has the Close, High and Low columns) the
  metrics are computed, with the current price the close of the last row, the previous
  price the close of the row before it (the current price itself when there is one row),
  and the percentage change \<open>(current - previous) / previous * 100\<close>, or 0 when the
  previous price is 0. A one-row series gives a change of 0; the closes 100 and 110 give
  a change of 10.
\<close>

theorem kpi_price_change:
  assumes "rows data \<noteq> []" and "set [''Close'', ''High'', ''Low''] \<subseteq> set (columns data)"
  shows "\<exists>m. display_kpi_metrics data = Inr m
     \<and> current_price m = Close (last (rows data))
     \<and> previous_price m = (if length (rows data) = 1 then current_price m
                           else Close (rows data ! (length (rows data) - 2)))
     \<and> price_change_pct m = (if previous_price m = 0 then 0
                             else (current_price m - previous_price m) / previous_price m * 100)
     \<and> (length (rows data) = 1 \<longrightarrow> price_change_pct m = 0)"
proof -
  have len: "length (rows data) = 1 \<or> 1 < length (rows data)"
    using assms(1) by (cases "rows data") auto
  have l: "last (map Close (rows data)) = Close (last (rows data))"
    using assms(1) by (simp add: last_map)
  have n: "1 < length (rows data) \<Longrightarrow>
      map Close (rows data) ! (length (rows data) - 2) = Close (rows data ! (length (rows data) - 2))"
    by simp
  show ?thesis
    using len by (auto simp: kpi_value[OF assms] l)
qed

theorem kpi_price_change_witness:
  "rows two_row_frame \<noteq> []
   \<and> set [''Close'', ''High'', ''Low''] \<subseteq> set (columns two_row_frame)
   \<and> (\<exists>m. display_kpi_metrics two_row_frame = Inr m
          \<and> current_price m = 110 \<and> previous_price m = 100 \<and> price_change_pct m = 10)"
proof -
  have r: "rows two_row_frame \<noteq> []"
    by (simp add: two_row_frame_def)
  have c: "set [''Close'', ''High'', ''Low''] \<subseteq> set (columns two_row_frame)"
    by (simp add: two_row_frame_def ohlcv_columns_def)
  from kpi_price_change[OF r c] obtain m where m: "display_kpi_metrics two_row_frame = Inr m"
    "current_price m = Close (last (rows two_row_frame))"
    "previous_price m = (if length (rows two_row_frame) = 1 then current_price m
                         else Close (rows two_row_frame ! (length (rows two_row_frame) - 2)))"
    "price_change_pct m = (if previous_price m = 0 then 0
                           else (current_price m - previous_price m) / previous_price m * 100)"
    by blast
  have "current_price m = 110" using m(2) by (simp add: two_row_frame_def)
  moreover have "previous_price m = 100" using m(3) by (simp add: two_row_frame_def)
  ultimately have "price_change_pct m = 10" using m(4) by simp
  then show ?thesis
    using r c m(1) \<open>current_price m = 110\<close> \<open>previous_price m = 100\<close> by blast
qed

lemma kpi_single_row_example:
  "\<exists>m. display_kpi_metrics single_row_frame = Inr m \<and> price_change_pct m = 0"
  by (simp add: display_kpi_metrics_def getitem_def single_row_frame_def ohlcv_columns_def
      iloc_def df_len_def)

text \<open>
  Claim C7. For every non-empty series (one that has the Close, High and Low columns) the
  24-period high is the maximum of High and the 24-period low is the minimum of Low, both
  over the last 24 rows when the series has at least 24 rows and over all rows otherwise.
\<close>

theorem kpi_high_low_24:
  assumes "rows data \<noteq> []" and "set [''Close'', ''High'', ''Low''] \<subseteq> set (columns data)"
  shows "\<exists>m. display_kpi_metrics data = Inr m
     \<and> high_24h m = Some (Max (High ` set
          (if 24 \<le> length (rows data) then drop (length (rows data) - 24) (rows data)
           else rows data)))
     \<and> low_24h m = Some (Min (Low ` set
          (if 24 \<le> length (rows data) then drop (length (rows data) - 24) (rows data)
           else rows data)))"
proof (cases "24 \<le> length (rows data)")
  case True
  let ?w = "drop (length (rows data) - 24) (rows data)"
  have ne: "?w \<noteq> []" using True by simp
  have "tail 24 (map High (rows data)) = map High ?w"
      "tail 24 (map Low (rows data)) = map Low ?w"
    by (simp_all add: tail_def drop_map)
  moreover have "series_max (map High ?w) = Some (Max (High ` set ?w))"
      "series_min (map Low ?w) = Some (Min (Low ` set ?w))"
    using ne series_max_eq[of "map High ?w"] series_min_eq[of "map Low ?w"] by simp_all
  ultimately show ?thesis
    using True by (simp add: kpi_value[OF assms])
next
  case False
  have "series_max (map High (rows data)) = Some (Max (High ` set (rows data)))"
      "series_min (map Low (rows data)) = Some (Min (Low ` set (rows data)))"
    using assms(1) series_max_eq[of "map High (rows data)"]
      series_min_eq[of "map Low (rows data)"] by simp_all
  then show ?thesis
    using False by (simp add: kpi_value[OF assms])
qed

lemma ramp_rows:
  "rows ramp_frame =
     \<lparr>Date = 0, Open = 50, High = 1000, Low = 1, Close = 50, Volume = 0\<rparr>
     # map (\<lambda>i. \<lparr>Date = int i, Open = 50, High = 100 + real i, Low = 10 + real i,
                   Close = 50, Volume = 0\<rparr>) [1..<25]"
proof -
  have "[0..<25] = 0 # [1..<25]" by (simp add: upt_rec)
  then show ?thesis by (simp add: ramp_frame_def)
qed

lemma ramp_window:
  "drop (length (rows ramp_frame) - 24) (rows ramp_frame) =
     map (\<lambda>i. \<lparr>Date = int i, Open = 50, High = 100 + real i, Low = 10 + real i,
                 Close = 50, Volume = 0\<rparr>) [1..<25]"
  by (simp add: ramp_rows)

lemma ramp_high: "Max ((\<lambda>i. 100 + real i) ` {1..<25}) = 124"
proof (rule Max_eqI)
  show "finite ((\<lambda>i. 100 + real i) ` {1..<25})" by simp
  show "\<And>y. y \<in> (\<lambda>i. 100 + real i) ` {1..<25} \<Longrightarrow> y \<le> 124" by auto
  have "(24::nat) \<in> {1..<25}" by simp
  then show "124 \<in> (\<lambda>i. 100 + real i) ` {1..<25}" by force
qed

lemma ramp_low: "Min ((\<lambda>i. 10 + real i) ` {1..<25}) = 11"
proof (rule Min_eqI)
  show "finite ((\<lambda>i. 10 + real i) ` {1..<25})" by simp
  show "\<And>y. y \<in> (\<lambda>i. 10 + real i) ` {1..<25} \<Longrightarrow> 11 \<le> y" by auto
  have "(1::nat) \<in> {1..<25}" by simp
  then show "11 \<in> (\<lambda>i. 10 + real i) ` {1..<25}" by force
qed

theorem kpi_high_low_24_witness:
  "rows ramp_frame \<noteq> []
   \<and> set [''Close'', ''High'', ''Low''] \<subseteq> set (columns ramp_frame)
   \<and> length (rows ramp_frame) = 25
   \<and> High (rows ramp_frame ! 0) = 1000 \<and> Low (rows ramp_frame ! 0) = 1
   \<and> (\<exists>m. display_kpi_metrics ramp_frame = Inr m
          \<and> high_24h m = Some 124 \<and> low_24h m = Some 11)"
proof -
  have r: "rows ramp_frame \<noteq> []"
    by (simp add: ramp_rows)
  have c: "set [''Close'', ''High'', ''Low''] \<subseteq> set (columns ramp_frame)"
    by (simp add: ramp_frame_def ohlcv_columns_def)
  have len: "length (rows ramp_frame) = 25"
    by (simp add: ramp_frame_def)
  have first: "High (rows ramp_frame ! 0) = 1000" "Low (rows ramp_frame ! 0) = 1"
    by (simp_all add: ramp_rows)
  have hi: "High ` set (drop (length (rows ramp_frame) - 24) (rows ramp_frame))
              = (\<lambda>i. 100 + real i) ` {1..<25}"
    unfolding ramp_window by (simp add: image_image)
  have lo: "Low ` set (drop (length (rows ramp_frame) - 24) (rows ramp_frame))
              = (\<lambda>i. 10 + real i) ` {1..<25}"
    unfolding ramp_window by (simp add: image_image)
  from kpi_high_low_24[OF r c] obtain m where
    m: "display_kpi_metrics ramp_frame = Inr m"
    and h: "high_24h m = Some (Max (High ` set
          (if 24 \<le> length (rows ramp_frame)
           then drop (length (rows ramp_frame) - 24) (rows ramp_frame)
           else rows ramp_frame)))"
    and l: "low_24h m = Some (Min (Low ` set
          (if 24 \<le> length (rows ramp_frame)
           then drop (length (rows ramp_frame) - 24) (rows ramp_frame)
           else rows ramp_frame)))"
    by blast
  have "24 \<le> length (rows ramp_frame)" using len by simp
  then have "high_24h m = Some 124" "low_24h m = Some 11"
    using h l hi lo ramp_high ramp_low by (simp_all only: if_True)
  then show ?thesis using r c len first m by blast
qed

section \<open>Properties of the sentiment score\<close>

lemma polarity_scores_Inr:
  "(polarity_scores w hs = Inr ps) = (map (textblob_polarity w) hs = map Inr ps)"
proof (induction hs arbitrary: ps)
  case Nil
  then show ?case by auto
next
  case (Cons h hs)
  show ?case
  proof (cases "textblob_polarity w h")
    case (Inl e)
    then show ?thesis by auto
  next
    case (Inr p)
    show ?thesis
    proof (cases "polarity_scores w hs")
      case (Inl e)
      with Cons.IH Inr show ?thesis by (cases ps) auto
    next
      case r: (Inr qs)
      with Cons.IH[of qs] Cons.IH Inr show ?thesis by (cases ps) auto
    qed
  qed
qed

lemma polarity_scores_Inl:
  "isl (polarity_scores w hs) = (\<exists>h \<in> set hs. isl (textblob_polarity w h))"
  by (induction hs) (auto split: sum.splits)

lemma sum_list_bounds:
  fixes ps :: "real list"
  assumes "\<forall>p \<in> set ps. - 1 \<le> p \<and> p \<le> 1"
  shows "- real (length ps) \<le> sum_list ps \<and> sum_list ps \<le> real (length ps)"
  using assms by (induction ps) auto

lemma average_bounds:
  fixes ps :: "real list"
  assumes "ps \<noteq> []" and "\<forall>p \<in> set ps. - 1 \<le> p \<and> p \<le> 1"
  shows "- 1 \<le> sum_list ps / real (length ps) \<and> sum_list ps / real (length ps) \<le> 1"
proof -
  have n: "0 < real (length ps)" using assms(1) by simp
  from sum_list_bounds[OF assms(2)] n show ?thesis
    by (simp add: pos_le_divide_eq pos_divide_le_eq)
qed

lemma sentiment_try_Inr:
  assumes "polarity_scores w (random_sample_of w mock_headlines (random_randint w 3 5)) = Inr ps"
    and "ps \<noteq> []"
  shows "get_sentiment w =
     \<lparr>score = ((sum_list ps / real (length ps) + 1) / 2) * 100,
      label = (if ((sum_list ps / real (length ps) + 1) / 2) * 100 \<ge> 60 then BULLISH
               else if ((sum_list ps / real (length ps) + 1) / 2) * 100 \<ge> 40 then NEUTRAL
               else BEARISH),
      headlines = random_sample_of w mock_headlines (random_randint w 3 5)\<rparr>"
  unfolding get_sentiment_def sentiment_try_def Let_def assms(1)
  using assms(2) by (simp only: sum.case if_False)

lemma sentiment_try_Inl:
  assumes "isl (polarity_scores w (random_sample_of w mock_headlines (random_randint w 3 5)))"
  shows "get_sentiment w = \<lparr>score = 50, label = NEUTRAL, headlines = []\<rparr>"
  using assms by (auto simp: get_sentiment_def sentiment_try_def Let_def split: sum.splits)

text \<open>
  Claim C8. Every call of \<^verbatim>\<open>get_sentiment\<close> returns a score in \<open>[0, 100]\<close> and a label that
  agrees with the thresholds: BULLISH exactly when the score is at least 60, NEUTRAL
  exactly when it is at least 40 and below 60, BEARISH exactly when it is below 40. Either
  the analyser scored every sampled headline, and then the headlines are the sample (3
  to 5 distinct headlines of the 8) and the score is \<open>((avg + 1) / 2) * 100\<close> for the
  average \<open>avg\<close> of their polarities; or the analyser raised, and then the result is the
  fallback: score 50, NEUTRAL, no headlines. The sample obeys the contracts of
  \<^verbatim>\<open>random.randint\<close> and \<^verbatim>\<open>random.sample\<close>, a polarity lies in \<open>[-1, 1]\<close>.
\<close>

theorem get_sentiment_score_and_label:
  assumes "3 \<le> random_randint w 3 5 \<and> random_randint w 3 5 \<le> 5"
    and "length (random_sample_of w mock_headlines (random_randint w 3 5))
           = nat (random_randint w 3 5)
         \<and> distinct (random_sample_of w mock_headlines (random_randint w 3 5))
         \<and> set (random_sample_of w mock_headlines (random_randint w 3 5)) \<subseteq> set mock_headlines"
    and "\<forall>text p. textblob_polarity w text = Inr p \<longrightarrow> - 1 \<le> p \<and> p \<le> 1"
  shows "0 \<le> score (get_sentiment w) \<and> score (get_sentiment w) \<le> 100
     \<and> (label (get_sentiment w) = BULLISH) = (60 \<le> score (get_sentiment w))
     \<and> (label (get_sentiment w) = NEUTRAL)
         = (40 \<le> score (get_sentiment w) \<and> score (get_sentiment w) < 60)
     \<and> (label (get_sentiment w) = BEARISH) = (score (get_sentiment w) < 40)
     \<and> ((\<exists>ps. map (textblob_polarity w) (headlines (get_sentiment w)) = map Inr ps
              \<and> headlines (get_sentiment w)
                  = random_sample_of w mock_headlines (random_randint w 3 5)
              \<and> 3 \<le> length (headlines (get_sentiment w))
              \<and> length (headlines (get_sentiment w)) \<le> 5
              \<and> distinct (headlines (get_sentiment w))
              \<and> set (headlines (get_sentiment w)) \<subseteq> set mock_headlines
              \<and> score (get_sentiment w) = ((sum_list ps / real (length ps) + 1) / 2) * 100)
        \<or> ((\<exists>h \<in> set (random_sample_of w mock_headlines (random_randint w 3 5)).
               isl (textblob_polarity w h))
           \<and> get_sentiment w = \<lparr>score = 50, label = NEUTRAL, headlines = []\<rparr>))"
proof (cases "polarity_scores w (random_sample_of w mock_headlines (random_randint w 3 5))")
  case (Inl e)
  then have f: "isl (polarity_scores w (random_sample_of w mock_headlines (random_randint w 3 5)))"
    by simp
  note g = sentiment_try_Inl[OF f]
  from f have "\<exists>h \<in> set (random_sample_of w mock_headlines (random_randint w 3 5)).
      isl (textblob_polarity w h)"
    by (simp add: polarity_scores_Inl)
  then show ?thesis by (simp add: g)
next
  case (Inr ps)
  let ?sel = "random_sample_of w mock_headlines (random_randint w 3 5)"
  have m: "map (textblob_polarity w) ?sel = map Inr ps"
    using Inr by (simp add: polarity_scores_Inr)
  then have "length (map (textblob_polarity w) ?sel) = length (map Inr ps :: (error + real) list)"
    by simp
  then have len: "length ps = length ?sel" by simp
  have l3: "3 \<le> length ?sel" "length ?sel \<le> 5"
    using assms(1,2) by linarith+
  then have ne: "ps \<noteq> []" using len by auto
  have rng: "\<forall>p \<in> set ps. - 1 \<le> p \<and> p \<le> 1"
  proof
    fix p assume "p \<in> set ps"
    then obtain i where i: "i < length ps" "ps ! i = p" by (auto simp: in_set_conv_nth)
    then have "map (textblob_polarity w) ?sel ! i = map Inr ps ! i" using m by simp
    then have "textblob_polarity w (?sel ! i) = Inr p" using i len by simp
    then show "- 1 \<le> p \<and> p \<le> 1" using assms(3) by blast
  qed
  note avg = average_bounds[OF ne rng]
  note g = sentiment_try_Inr[OF Inr ne]
  have sc: "score (get_sentiment w) = ((sum_list ps / real (length ps) + 1) / 2) * 100"
    by (simp add: g)
  define a where "a = sum_list ps / real (length ps)"
  have "0 \<le> ((a + 1) / 2) * 100" "((a + 1) / 2) * 100 \<le> 100"
    using avg unfolding a_def[symmetric] by simp_all
  then have b: "0 \<le> score (get_sentiment w)" "score (get_sentiment w) \<le> 100"
    unfolding sc a_def by blast+
  have lab: "(label (get_sentiment w) = BULLISH) = (60 \<le> score (get_sentiment w))"
      "(label (get_sentiment w) = NEUTRAL)
         = (40 \<le> score (get_sentiment w) \<and> score (get_sentiment w) < 60)"
      "(label (get_sentiment w) = BEARISH) = (score (get_sentiment w) < 40)"
    unfolding g by auto
  have h: "headlines (get_sentiment w) = ?sel" by (simp add: g)
  have "\<exists>ps. map (textblob_polarity w) (headlines (get_sentiment w)) = map Inr ps
              \<and> headlines (get_sentiment w) = ?sel
              \<and> 3 \<le> length (headlines (get_sentiment w))
              \<and> length (headlines (get_sentiment w)) \<le> 5
              \<and> distinct (headlines (get_sentiment w))
              \<and> set (headlines (get_sentiment w)) \<subseteq> set mock_headlines
              \<and> score (get_sentiment w) = ((sum_list ps / real (length ps) + 1) / 2) * 100"
    using m l3 assms(2) sc unfolding h by blast
  then show ?thesis using b lab by blast
qed

lemma offline_sentiment:
  "get_sentiment offline_world =
     \<lparr>score = 50, label = NEUTRAL, headlines = take 3 mock_headlines\<rparr>"
  by (simp add: get_sentiment_def sentiment_try_def Let_def offline_world_def mock_headlines_def)

theorem get_sentiment_score_and_label_witness:
  "3 \<le> random_randint offline_world 3 5 \<and> random_randint offline_world 3 5 \<le> 5
   \<and> length (random_sample_of offline_world mock_headlines (random_randint offline_world 3 5))
       = nat (random_randint offline_world 3 5)
   \<and> distinct (random_sample_of offline_world mock_headlines (random_randint offline_world 3 5))
   \<and> set (random_sample_of offline_world mock_headlines (random_randint offline_world 3 5))
       \<subseteq> set mock_headlines
   \<and> (\<forall>text. textblob_polarity offline_world text = Inr 0)
   \<and> 0 \<le> score (get_sentiment offline_world) \<and> score (get_sentiment offline_world) \<le> 100
   \<and> label (get_sentiment offline_world) = NEUTRAL
   \<and> length (headlines (get_sentiment offline_world)) = 3"
proof -
  have k: "3 \<le> random_randint offline_world 3 5 \<and> random_randint offline_world 3 5 \<le> 5"
    by (simp add: offline_world_def)
  have s: "length (random_sample_of offline_world mock_headlines (random_randint offline_world 3 5))
             = nat (random_randint offline_world 3 5)
         \<and> distinct (random_sample_of offline_world mock_headlines (random_randint offline_world 3 5))
         \<and> set (random_sample_of offline_world mock_headlines (random_randint offline_world 3 5))
             \<subseteq> set mock_headlines"
    by (simp add: offline_world_def mock_headlines_def)
  have p0: "\<forall>text. textblob_polarity offline_world text = Inr 0"
    by (simp add: offline_world_def)
  then have p: "\<forall>text p. textblob_polarity offline_world text = Inr p \<longrightarrow> - 1 \<le> p \<and> p \<le> 1"
    by simp
  have e: "label (get_sentiment offline_world) = NEUTRAL"
      "length (headlines (get_sentiment offline_world)) = 3"
    by (simp_all add: offline_sentiment mock_headlines_def)
  show ?thesis
    using get_sentiment_score_and_label[OF k s p] k s p0 e by blast
qed

lemma get_sentiment_fallback_example:
  "get_sentiment no_lexicon_world = \<lparr>score = 50, label = NEUTRAL, headlines = []\<rparr>"
  by (simp add: get_sentiment_def sentiment_try_def Let_def no_lexicon_world_def
      offline_world_def mock_headlines_def)

end
